theory Spec2Isabelle
  imports Complex_Main
begin

section \<open>Values, errors and library functions\<close>

text \<open>
  The module \<^verbatim>\<open>EuropeanOption.py\<close> computes with Python and numpy floats. The
  embedding reads them as real numbers: rounding and overflow are not modelled. What
  is modelled is where the code leaves the real numbers: \<^verbatim>\<open>np.sqrt\<close> of a
  negative number is nan and a numpy division by zero is an infinity or nan, with a
  warning and no exception. \<open>Degenerate\<close> stands for every float that was computed
  from such a value; the embedding does not track which float it is. No branch of the
  code compares floats, so the control flow does not depend on it.
\<close>

datatype pyfloat = Finite real | Degenerate

text \<open>
  The exceptions the module can raise: the \<^verbatim>\<open>ValueError\<close> of the module itself and
  of \<^verbatim>\<open>math.log\<close> (with its message), the \<^verbatim>\<open>ZeroDivisionError\<close> of a division
  of Python floats, and the \<^verbatim>\<open>IndexError\<close> of an index into an empty array.
\<close>

datatype error = ValueError string | ZeroDivisionError | IndexError

instantiation pyfloat :: "{plus, minus, uminus, times, inverse, abs}"
begin

definition plus_pyfloat :: "pyfloat \<Rightarrow> pyfloat \<Rightarrow> pyfloat" where
  "plus_pyfloat a b =
     (case a of Degenerate \<Rightarrow> Degenerate
      | Finite x \<Rightarrow> (case b of Degenerate \<Rightarrow> Degenerate | Finite y \<Rightarrow> Finite (x + y)))"

definition minus_pyfloat :: "pyfloat \<Rightarrow> pyfloat \<Rightarrow> pyfloat" where
  "minus_pyfloat a b =
     (case a of Degenerate \<Rightarrow> Degenerate
      | Finite x \<Rightarrow> (case b of Degenerate \<Rightarrow> Degenerate | Finite y \<Rightarrow> Finite (x - y)))"

definition uminus_pyfloat :: "pyfloat \<Rightarrow> pyfloat" where
  "uminus_pyfloat a = (case a of Degenerate \<Rightarrow> Degenerate | Finite x \<Rightarrow> Finite (- x))"

definition times_pyfloat :: "pyfloat \<Rightarrow> pyfloat \<Rightarrow> pyfloat" where
  "times_pyfloat a b =
     (case a of Degenerate \<Rightarrow> Degenerate
      | Finite x \<Rightarrow> (case b of Degenerate \<Rightarrow> Degenerate | Finite y \<Rightarrow> Finite (x * y)))"

text \<open>The division of numpy floats: a zero divisor gives an infinity or nan.\<close>

definition divide_pyfloat :: "pyfloat \<Rightarrow> pyfloat \<Rightarrow> pyfloat" where
  "divide_pyfloat a b =
     (case a of Degenerate \<Rightarrow> Degenerate
      | Finite x \<Rightarrow>
          (case b of Degenerate \<Rightarrow> Degenerate
           | Finite y \<Rightarrow> if y = 0 then Degenerate else Finite (x / y)))"

definition inverse_pyfloat :: "pyfloat \<Rightarrow> pyfloat" where
  "inverse_pyfloat a =
     (case a of Degenerate \<Rightarrow> Degenerate
      | Finite x \<Rightarrow> if x = 0 then Degenerate else Finite (inverse x))"

definition abs_pyfloat :: "pyfloat \<Rightarrow> pyfloat" where
  "abs_pyfloat a = (case a of Degenerate \<Rightarrow> Degenerate | Finite x \<Rightarrow> Finite \<bar>x\<bar>)"

instance ..

end

text \<open>\<^verbatim>\<open>np.sqrt\<close>: nan below zero.\<close>

definition np_sqrt :: "real \<Rightarrow> pyfloat" where
  "np_sqrt t = (if t < 0 then Degenerate else Finite (sqrt t))"

text \<open>
  \<^verbatim>\<open>scipy.stats.norm.pdf\<close> and \<^verbatim>\<open>norm.cdf\<close> are library functions: the density
  and the distribution function of the standard normal law. The density has a closed
  form. The distribution function is given by its Maclaurin series, which converges
  everywhere: \<open>1/2 + (x - x^3/6 + x^5/40 - ...) / sqrt (2 pi)\<close>, the coefficient of
  \<open>x^(2k+1)\<close> being \<open>(-1/2)^k / (k! (2k+1))\<close>. Below, \<open>std_normal_cdf_0\<close>
  and \<open>DERIV_std_normal_cdf\<close> show that this is the function whose value at 0 is
  1/2 and whose derivative is the density.
\<close>

definition std_normal_pdf :: "real \<Rightarrow> real" where
  "std_normal_pdf x = exp (- x\<^sup>2 / 2) / sqrt (2 * pi)"

definition cdf_coeff :: "nat \<Rightarrow> real" where
  "cdf_coeff n =
     (if even n then 0
      else (- 1 / 2) ^ ((n - 1) div 2) / (fact ((n - 1) div 2) * real n))"

definition std_normal_cdf :: "real \<Rightarrow> real" where
  "std_normal_cdf x = 1 / 2 + (\<Sum>n. cdf_coeff n * x ^ n) / sqrt (2 * pi)"

text \<open>
  The library functions on floats (the module calls them \<^verbatim>\<open>N\<close> and \<^verbatim>\<open>n\<close>): a
  degenerate argument is not tracked.
\<close>

definition norm_cdf :: "pyfloat \<Rightarrow> pyfloat" where
  "norm_cdf a = (case a of Degenerate \<Rightarrow> Degenerate | Finite x \<Rightarrow> Finite (std_normal_cdf x))"

definition norm_pdf :: "pyfloat \<Rightarrow> pyfloat" where
  "norm_pdf a = (case a of Degenerate \<Rightarrow> Degenerate | Finite x \<Rightarrow> Finite (std_normal_pdf x))"

text \<open>
  \<^verbatim>\<open>str.lower\<close>, on the ASCII letters. A \<open>char\<close> is a byte; the bytes of a
  character outside ASCII are kept as they are. No character outside ASCII has a lower
  case form among the letters of \<^verbatim>\<open>call\<close> and \<^verbatim>\<open>put\<close>, so the comparisons of the
  module with these two words are the ones of the model.
\<close>

definition lower_char :: "char \<Rightarrow> char" where
  "lower_char c =
     (let k = (of_char c :: nat) in if 65 \<le> k \<and> k \<le> 90 then char_of (k + 32) else c)"

definition lower :: "string \<Rightarrow> string" where
  "lower s = map lower_char s"

section \<open>The class EuropeanOption\<close>

text \<open>
  The six attributes \<^verbatim>\<open>_S0\<close>, \<^verbatim>\<open>_K\<close>, \<^verbatim>\<open>_T\<close>, \<^verbatim>\<open>_r\<close>, \<^verbatim>\<open>_sigma\<close> and
  \<^verbatim>\<open>_type\<close> that \<^verbatim>\<open>__init__\<close> assigns first, and the object with its seventh
  attribute \<^verbatim>\<open>_price\<close>. The methods that do not read \<^verbatim>\<open>_price\<close> are defined on
  both records.
\<close>

record attributes =
  self_S0 :: real
  self_K :: real
  self_T :: real
  self_r :: real
  self_sigma :: real
  self_type :: string

record EuropeanOption = attributes +
  self_price :: pyfloat

text \<open>
  \<^verbatim>\<open>_d1_d2\<close>. \<^verbatim>\<open>self._S0 / self._K\<close> divides Python floats and raises on a zero
  divisor; \<^verbatim>\<open>math.log\<close> raises on an argument that is not positive; the division by
  \<^verbatim>\<open>self._sigma * np.sqrt(self._T)\<close> is a division of numpy floats.
\<close>

definition d1_d2 :: "'a attributes_scheme \<Rightarrow> error + (pyfloat \<times> pyfloat)" where
  "d1_d2 self =
     (if self_K self = 0 then Inl ZeroDivisionError
      else if self_S0 self / self_K self \<le> 0 then Inl (ValueError ''math domain error'')
      else
        let d1 = Finite (ln (self_S0 self / self_K self)
                   + (self_r self + (self_sigma self)\<^sup>2 / 2) * self_T self)
                 / (Finite (self_sigma self) * np_sqrt (self_T self))
        in Inr (d1, d1 - Finite (self_sigma self) * np_sqrt (self_T self)))"

definition black_and_scholes :: "'a attributes_scheme \<Rightarrow> error + pyfloat" where
  "black_and_scholes self =
     (case d1_d2 self of
        Inl e \<Rightarrow> Inl e
      | Inr (d1, d2) \<Rightarrow>
          if lower (self_type self) = ''call'' then
            Inr (Finite (self_S0 self) * norm_cdf d1
                 - Finite (self_K self) * Finite (exp (- self_r self * self_T self)) * norm_cdf d2)
          else if lower (self_type self) = ''put'' then
            Inr (Finite (self_K self) * Finite (exp (- self_r self * self_T self)) * norm_cdf (- d2)
                 - Finite (self_S0 self) * norm_cdf (- d1))
          else Inl (ValueError ''Option type can only be a Call or a Put.''))"

text \<open>\<^verbatim>\<open>__init__\<close>: the six attributes as they are given, then the price.\<close>

definition init :: "real \<Rightarrow> real \<Rightarrow> real \<Rightarrow> real \<Rightarrow> real \<Rightarrow> string \<Rightarrow> error + EuropeanOption" where
  "init S0 K T r sigma type =
     (let self = \<lparr>self_S0 = S0, self_K = K, self_T = T, self_r = r, self_sigma = sigma,
                  self_type = type\<rparr>
      in case black_and_scholes self of
           Inl e \<Rightarrow> Inl e
         | Inr p \<Rightarrow> Inr (attributes.extend self (EuropeanOption.fields p)))"

text \<open>
  The Greeks. \<^verbatim>\<open>delta\<close>, \<^verbatim>\<open>theta\<close> and \<^verbatim>\<open>rho\<close> compare \<^verbatim>\<open>self._type\<close> with
  \<^verbatim>\<open>'call'\<close> and \<^verbatim>\<open>'put'\<close> as it is stored; when neither test holds the method ends
  without a \<^verbatim>\<open>return\<close> and its value is \<^verbatim>\<open>None\<close>.
\<close>

definition delta :: "'a attributes_scheme \<Rightarrow> error + pyfloat option" where
  "delta self =
     (case d1_d2 self of
        Inl e \<Rightarrow> Inl e
      | Inr (d1, _) \<Rightarrow>
          if self_type self = ''call'' then Inr (Some (norm_cdf d1))
          else if self_type self = ''put'' then Inr (Some (norm_cdf d1 - Finite 1))
          else Inr None)"

definition gamma :: "'a attributes_scheme \<Rightarrow> error + pyfloat" where
  "gamma self =
     (case d1_d2 self of
        Inl e \<Rightarrow> Inl e
      | Inr (d1, _) \<Rightarrow>
          Inr (norm_pdf d1 / (Finite (self_S0 self) * Finite (self_sigma self) * Finite (self_sigma self)
                       * np_sqrt (self_T self))))"

definition vega :: "'a attributes_scheme \<Rightarrow> error + pyfloat" where
  "vega self =
     (case d1_d2 self of
        Inl e \<Rightarrow> Inl e
      | Inr (d1, _) \<Rightarrow>
          Inr (Finite (self_S0 self) * Finite (self_sigma self) * np_sqrt (self_T self) * norm_pdf d1))"

definition theta :: "'a attributes_scheme \<Rightarrow> error + pyfloat option" where
  "theta self =
     (case d1_d2 self of
        Inl e \<Rightarrow> Inl e
      | Inr (d1, d2) \<Rightarrow>
          if self_type self = ''call'' then
            Inr (Some (Finite (- self_S0 self) * Finite (self_sigma self) * norm_pdf d1
                         / (Finite 2 * np_sqrt (self_T self))
                       - Finite (self_r self) * Finite (self_K self)
                         * Finite (exp (- self_r self * self_T self)) * norm_cdf d2))
          else if self_type self = ''put'' then
            Inr (Some (Finite (- self_S0 self) * Finite (self_sigma self) * norm_pdf d1
                         / (Finite 2 * np_sqrt (self_T self))
                       + Finite (self_r self) * Finite (self_K self)
                         * Finite (exp (- self_r self * self_T self)) * norm_cdf (- d2)))
          else Inr None)"

definition rho :: "'a attributes_scheme \<Rightarrow> error + pyfloat option" where
  "rho self =
     (case d1_d2 self of
        Inl e \<Rightarrow> Inl e
      | Inr (_, d2) \<Rightarrow>
          if self_type self = ''call'' then
            Inr (Some (Finite (self_K self) * Finite (self_T self)
                       * Finite (exp (- self_r self * self_T self)) * norm_cdf d2))
          else if self_type self = ''put'' then
            Inr (Some (Finite (- self_K self) * Finite (self_T self)
                       * Finite (exp (- self_r self * self_T self)) * norm_cdf (- d2)))
          else Inr None)"

text \<open>
  The setters. A setter is a state transformer: it returns the outcome of the
  assignment (\<open>Inr ()\<close>, or the exception raised) and the object as the assignment
  leaves it. The five numeric setters store the value first and price afterwards, so an
  exception of \<^verbatim>\<open>black_and_scholes\<close> leaves the new value beside the old price. The
  setter of \<^verbatim>\<open>type\<close> checks the value before it stores anything.
\<close>

definition reprice :: "EuropeanOption \<Rightarrow> (error + unit) \<times> EuropeanOption" where
  "reprice self =
     (case black_and_scholes self of
        Inl e \<Rightarrow> (Inl e, self)
      | Inr p \<Rightarrow> (Inr (), self\<lparr>self_price := p\<rparr>))"

definition set_S0 :: "real \<Rightarrow> EuropeanOption \<Rightarrow> (error + unit) \<times> EuropeanOption" where
  "set_S0 v self = reprice (self\<lparr>self_S0 := v\<rparr>)"

definition set_K :: "real \<Rightarrow> EuropeanOption \<Rightarrow> (error + unit) \<times> EuropeanOption" where
  "set_K v self = reprice (self\<lparr>self_K := v\<rparr>)"

definition set_T :: "real \<Rightarrow> EuropeanOption \<Rightarrow> (error + unit) \<times> EuropeanOption" where
  "set_T v self = reprice (self\<lparr>self_T := v\<rparr>)"

definition set_r :: "real \<Rightarrow> EuropeanOption \<Rightarrow> (error + unit) \<times> EuropeanOption" where
  "set_r v self = reprice (self\<lparr>self_r := v\<rparr>)"

definition set_sigma :: "real \<Rightarrow> EuropeanOption \<Rightarrow> (error + unit) \<times> EuropeanOption" where
  "set_sigma v self = reprice (self\<lparr>self_sigma := v\<rparr>)"

definition set_type :: "string \<Rightarrow> EuropeanOption \<Rightarrow> (error + unit) \<times> EuropeanOption" where
  "set_type v self =
     (if lower v \<notin> set [''call'', ''put'']
      then (Inl (ValueError ''Option type can only be a Call or a Put.''), self)
      else reprice (self\<lparr>self_type := lower v\<rparr>))"

section \<open>implied_volatility\<close>







section \<open>The formulas of the specification\<close>

text \<open>
  The closed forms as the specification writes them, on real numbers: \<open>d1\<close>,
  \<open>d2\<close>, and the price of a call and of a put. The theorems below compare the
  methods of the class with them.
\<close>

definition spec_d1 :: "real \<Rightarrow> real \<Rightarrow> real \<Rightarrow> real \<Rightarrow> real \<Rightarrow> real" where
  "spec_d1 S0 K T r sigma = (ln (S0 / K) + (r + sigma\<^sup>2 / 2) * T) / (sigma * sqrt T)"

definition spec_d2 :: "real \<Rightarrow> real \<Rightarrow> real \<Rightarrow> real \<Rightarrow> real \<Rightarrow> real" where
  "spec_d2 S0 K T r sigma = spec_d1 S0 K T r sigma - sigma * sqrt T"

definition spec_call :: "real \<Rightarrow> real \<Rightarrow> real \<Rightarrow> real \<Rightarrow> real \<Rightarrow> real" where
  "spec_call S0 K T r sigma =
     S0 * std_normal_cdf (spec_d1 S0 K T r sigma)
     - K * exp (- r * T) * std_normal_cdf (spec_d2 S0 K T r sigma)"

definition spec_put :: "real \<Rightarrow> real \<Rightarrow> real \<Rightarrow> real \<Rightarrow> real \<Rightarrow> real" where
  "spec_put S0 K T r sigma =
     K * exp (- r * T) * std_normal_cdf (- spec_d2 S0 K T r sigma)
     - S0 * std_normal_cdf (- spec_d1 S0 K T r sigma)"

section \<open>The objects of the tests\<close>

text \<open>
  The call of \<^verbatim>\<open>setUp\<close> in \<^verbatim>\<open>test_EuropeanOption.py\<close>: spot 100, strike 100,
  maturity 1, rate 0.05, volatility 0.2. \<open>option_call_init\<close> below shows that
  \<^verbatim>\<open>__init__\<close> returns it.
\<close>

definition option_call :: EuropeanOption where
  "option_call = \<lparr>self_S0 = 100, self_K = 100, self_T = 1, self_r = 1 / 20, self_sigma = 1 / 5,
     self_type = ''call'', self_price = Finite (spec_call 100 100 1 (1 / 20) (1 / 5))\<rparr>"

section \<open>The standard normal distribution function\<close>

text \<open>
  The coefficients of the series of \<open>exp (- x\<^sup>2 / 2)\<close>, the termwise derivative of
  the series of \<open>std_normal_cdf\<close>.
\<close>

definition gauss_coeff :: "nat \<Rightarrow> real" where
  "gauss_coeff n = (if even n then (- 1 / 2) ^ (n div 2) / fact (n div 2) else 0)"

lemma gauss_coeff_even: "gauss_coeff (2 * k) = (- 1 / 2) ^ k / fact k"
  by (simp add: gauss_coeff_def)

lemma gauss_coeff_odd: "gauss_coeff (Suc (2 * k)) = 0"
  by (simp add: gauss_coeff_def)

lemma cdf_coeff_even: "cdf_coeff (2 * k) = 0"
  by (simp add: cdf_coeff_def)

lemma cdf_coeff_odd: "cdf_coeff (Suc (2 * k)) = (- 1 / 2) ^ k / (fact k * real (Suc (2 * k)))"
  by (simp add: cdf_coeff_def)

lemma diffs_cdf_coeff: "diffs cdf_coeff n = gauss_coeff n"
proof (cases "even n")
  case True
  then obtain k where k: "n = 2 * k" by (auto elim: evenE)
  have "real (Suc (2 * k)) \<noteq> 0" by simp
  then show ?thesis
    unfolding k diffs_def cdf_coeff_odd gauss_coeff_even by (simp del: of_nat_Suc)
next
  case False
  then obtain k where k: "n = Suc (2 * k)" by (auto elim: oddE)
  have "Suc (Suc (2 * k)) = 2 * Suc k" by simp
  then show ?thesis
    unfolding k diffs_def gauss_coeff_odd by (simp only: cdf_coeff_even mult_zero_right)
qed

lemma half_sq_power: "(- x\<^sup>2 / 2) ^ k = (- 1 / 2) ^ k * x ^ (2 * k)" for x :: real
proof -
  have "- x\<^sup>2 / 2 = (- 1 / 2) * x\<^sup>2" by simp
  then have "(- x\<^sup>2 / 2) ^ k = (- 1 / 2) ^ k * (x\<^sup>2) ^ k"
    by (simp only: power_mult_distrib)
  also have "(x\<^sup>2) ^ k = x ^ (2 * k)"
    by (rule power_mult [symmetric])
  finally show ?thesis .
qed

lemma gauss_term:
  "(if even n then (- x\<^sup>2 / 2) ^ (n div 2) /\<^sub>R fact (n div 2) else 0) = gauss_coeff n * x ^ n"
proof (cases "even n")
  case True
  then obtain k where k: "n = 2 * k" by (auto elim: evenE)
  have d: "(2 * k) div 2 = k" by simp
  have "(- x\<^sup>2 / 2) ^ k /\<^sub>R fact k = gauss_coeff (2 * k) * x ^ (2 * k)"
    unfolding gauss_coeff_even half_sq_power by (simp only: real_scaleR_def divide_inverse mult_ac)
  then show ?thesis
    unfolding k d by simp
next
  case False
  then show ?thesis by (simp add: gauss_coeff_def)
qed

lemma gauss_sums: "(\<lambda>n. gauss_coeff n * x ^ n) sums exp (- x\<^sup>2 / 2)"
proof -
  let ?z = "- x\<^sup>2 / 2"
  have e: "(\<lambda>k. ?z ^ k /\<^sub>R fact k) sums exp ?z"
    by (rule exp_converges)
  have z: "(\<lambda>k::nat. 0::real) sums 0"
    by (rule sums_zero)
  have "(\<lambda>n. if even n then ?z ^ (n div 2) /\<^sub>R fact (n div 2) else 0) sums (0 + exp ?z)"
    by (rule sums_if [OF z e])
  then show ?thesis
    by (simp only: gauss_term add_0_left)
qed

lemma abs_half_power: "\<bar>(- 1 / 2) ^ k / (fact k * real (Suc (2 * k)))\<bar> = (1 / 2) ^ k / (fact k * real (Suc (2 * k)))"
  by (simp add: power_abs del: of_nat_Suc)

lemma abs_odd_power: "\<bar>y ^ Suc (2 * k)\<bar> = \<bar>y\<bar> * (y\<^sup>2) ^ k" for y :: real
proof -
  have "\<bar>y ^ Suc (2 * k)\<bar> = \<bar>y\<bar> * \<bar>y ^ (2 * k)\<bar>"
    by (simp only: power_Suc abs_mult)
  also have "y ^ (2 * k) = (y\<^sup>2) ^ k"
    by (rule power_mult)
  also have "\<bar>(y\<^sup>2) ^ k\<bar> = (y\<^sup>2) ^ k"
    by simp
  finally show ?thesis .
qed

lemma norm_cdf_term: "norm (cdf_coeff (Suc (2 * k)) * y ^ Suc (2 * k))
    = (\<bar>y\<bar> * ((y\<^sup>2 / 2) ^ k / fact k)) / real (Suc (2 * k))"
proof -
  have "norm (cdf_coeff (Suc (2 * k)) * y ^ Suc (2 * k))
      = \<bar>cdf_coeff (Suc (2 * k))\<bar> * \<bar>y ^ Suc (2 * k)\<bar>"
    by (simp only: real_norm_def abs_mult)
  also have "\<dots> = (1 / 2) ^ k / (fact k * real (Suc (2 * k))) * (\<bar>y\<bar> * (y\<^sup>2) ^ k)"
    by (simp only: cdf_coeff_odd abs_half_power abs_odd_power)
  also have "\<dots> = (\<bar>y\<bar> * ((1 / 2) ^ k * (y\<^sup>2) ^ k / fact k)) / real (Suc (2 * k))"
    by (simp only: times_divide_eq_right times_divide_eq_left divide_divide_eq_left mult_ac)
  also have "(1 / 2) ^ k * (y\<^sup>2) ^ k = (y\<^sup>2 / 2) ^ k"
    by (simp only: power_mult_distrib [symmetric] times_divide_eq_left mult_1)
  finally show ?thesis .
qed

lemma norm_cdf_term_le: "norm (cdf_coeff (Suc (2 * k)) * y ^ Suc (2 * k)) \<le> \<bar>y\<bar> * ((y\<^sup>2 / 2) ^ k /\<^sub>R fact k)"
proof -
  let ?a = "\<bar>y\<bar> * ((y\<^sup>2 / 2) ^ k / fact k)"
  have a: "0 \<le> ?a"
    by simp
  have "1 \<le> real (Suc (2 * k))"
    by simp
  then have "?a / real (Suc (2 * k)) \<le> ?a / 1"
    using a by (intro divide_left_mono) simp_all
  then show ?thesis
    unfolding norm_cdf_term by (simp only: real_scaleR_def divide_inverse mult_ac mult_1 inverse_1 mult_1_right)
qed

lemma summable_cdf_coeff: "summable (\<lambda>n. cdf_coeff n * y ^ n)"
proof -
  let ?g = "\<lambda>k. \<bar>y\<bar> * ((y\<^sup>2 / 2) ^ k /\<^sub>R fact k)"
  let ?h = "\<lambda>n. if even n then 0 else ?g ((n - 1) div 2)"
  have "summable ?g"
    by (intro summable_mult summable_exp_generic)
  then have "?g sums suminf ?g"
    by (rule summable_sums)
  then have "?h sums suminf ?g"
    by (rule sums_if')
  then have s: "summable ?h"
    by (rule sums_summable)
  show ?thesis
  proof (rule summable_comparison_test' [OF s, of 0])
    fix n :: nat
    show "norm (cdf_coeff n * y ^ n) \<le> ?h n"
    proof (cases "even n")
      case True
      then show ?thesis by (simp add: cdf_coeff_def)
    next
      case False
      then obtain k where k: "n = Suc (2 * k)" by (auto elim: oddE)
      have d: "(Suc (2 * k) - 1) div 2 = k" by simp
      have o: "\<not> even (Suc (2 * k))" by simp
      show ?thesis
        unfolding k d using norm_cdf_term_le [of k y] o by (simp only: if_False)
    qed
  qed
qed

lemma DERIV_std_normal_cdf: "DERIV std_normal_cdf x :> std_normal_pdf x"
proof -
  have "DERIV (\<lambda>x. \<Sum>n. cdf_coeff n * x ^ n) x :> (\<Sum>n. diffs cdf_coeff n * x ^ n)"
    by (rule termdiffs_strong_converges_everywhere) (rule summable_cdf_coeff)
  moreover have "(\<Sum>n. diffs cdf_coeff n * x ^ n) = exp (- x\<^sup>2 / 2)"
    unfolding diffs_cdf_coeff by (rule sums_unique [symmetric]) (rule gauss_sums)
  ultimately have "DERIV (\<lambda>x. \<Sum>n. cdf_coeff n * x ^ n) x :> exp (- x\<^sup>2 / 2)"
    by simp
  then have "DERIV (\<lambda>x. 1 / 2 + (\<Sum>n. cdf_coeff n * x ^ n) / sqrt (2 * pi)) x
               :> 0 + exp (- x\<^sup>2 / 2) / sqrt (2 * pi)"
    by (intro DERIV_add DERIV_const DERIV_cdivide)
  then show ?thesis
    by (simp add: std_normal_cdf_def [abs_def] std_normal_pdf_def)
qed

lemma std_normal_cdf_0: "std_normal_cdf 0 = 1 / 2"
proof -
  have "(\<Sum>n. cdf_coeff n * 0 ^ n) = cdf_coeff 0"
    by (rule powser_zero)
  also have "cdf_coeff 0 = 0"
    by (simp add: cdf_coeff_def)
  finally show ?thesis
    unfolding std_normal_cdf_def by simp
qed

lemma std_normal_pdf_minus: "std_normal_pdf (- x) = std_normal_pdf x"
  by (simp add: std_normal_pdf_def)

lemma std_normal_cdf_minus: "std_normal_cdf (- x) = 1 - std_normal_cdf x"
proof -
  have "DERIV (\<lambda>x. std_normal_cdf x + std_normal_cdf (- x)) u :> 0" for u
  proof -
    have "DERIV (\<lambda>x. std_normal_cdf (- x)) u :> std_normal_pdf (- u) * (- 1)"
      by (rule DERIV_chain' [OF _ DERIV_std_normal_cdf]) (auto intro!: derivative_eq_intros)
    then have "DERIV (\<lambda>x. std_normal_cdf x + std_normal_cdf (- x)) u
                 :> std_normal_pdf u + std_normal_pdf (- u) * (- 1)"
      by (intro DERIV_add DERIV_std_normal_cdf)
    then show ?thesis by (simp add: std_normal_pdf_minus)
  qed
  then have "\<forall>u. DERIV (\<lambda>x. std_normal_cdf x + std_normal_cdf (- x)) u :> 0"
    by blast
  then have "std_normal_cdf x + std_normal_cdf (- x) = std_normal_cdf 0 + std_normal_cdf (- 0)"
    by (rule DERIV_isconst_all)
  then show ?thesis by (simp add: std_normal_cdf_0)
qed

section \<open>The arithmetic of floats on finite values\<close>

lemma Finite_plus: "Finite a + Finite b = Finite (a + b)"
  by (simp add: plus_pyfloat_def)

lemma Finite_minus: "Finite a - Finite b = Finite (a - b)"
  by (simp add: minus_pyfloat_def)

lemma Finite_uminus: "- Finite a = Finite (- a)"
  by (simp add: uminus_pyfloat_def)

lemma Finite_times: "Finite a * Finite b = Finite (a * b)"
  by (simp add: times_pyfloat_def)

lemma Finite_divide: "b \<noteq> 0 \<Longrightarrow> Finite a / Finite b = Finite (a / b)"
  by (simp add: divide_pyfloat_def)

lemma Finite_abs: "\<bar>Finite a\<bar> = Finite \<bar>a\<bar>"
  by (simp add: abs_pyfloat_def)

lemma np_sqrt_Finite: "0 \<le> t \<Longrightarrow> np_sqrt t = Finite (sqrt t)"
  by (simp add: np_sqrt_def)

lemma norm_cdf_Finite: "norm_cdf (Finite a) = Finite (std_normal_cdf a)"
  by (simp add: norm_cdf_def)

lemma norm_pdf_Finite: "norm_pdf (Finite a) = Finite (std_normal_pdf a)"
  by (simp add: norm_pdf_def)

lemmas pyfloat_simps =
  Finite_plus Finite_minus Finite_uminus Finite_times Finite_divide Finite_abs
  np_sqrt_Finite norm_cdf_Finite norm_pdf_Finite

section \<open>The methods on valid contracts\<close>

lemma d1_d2_valid:
  assumes "0 < self_S0 self" "0 < self_K self" "0 < self_T self" "0 < self_sigma self"
  shows "d1_d2 self =
     Inr (Finite (spec_d1 (self_S0 self) (self_K self) (self_T self) (self_r self) (self_sigma self)),
          Finite (spec_d2 (self_S0 self) (self_K self) (self_T self) (self_r self) (self_sigma self)))"
proof -
  have "0 < self_S0 self / self_K self"
    using assms(1,2) by (rule divide_pos_pos)
  then have "\<not> self_S0 self / self_K self \<le> 0"
    by simp
  moreover have "self_K self \<noteq> 0" "0 \<le> self_T self" "self_sigma self * sqrt (self_T self) \<noteq> 0"
    using assms by simp_all
  ultimately show ?thesis
    by (simp add: d1_d2_def Let_def pyfloat_simps spec_d1_def spec_d2_def)
qed

lemma d1_d2_raises_or_returns:
  "d1_d2 self = (if self_K self = 0 then Inl ZeroDivisionError
                 else if self_S0 self / self_K self \<le> 0 then Inl (ValueError ''math domain error'')
                 else Inr (projr (d1_d2 self)))"
  by (simp add: d1_d2_def Let_def)

lemma black_and_scholes_call:
  assumes "0 < self_S0 self" "0 < self_K self" "0 < self_T self" "0 < self_sigma self"
    and "lower (self_type self) = ''call''"
  shows "black_and_scholes self =
     Inr (Finite (spec_call (self_S0 self) (self_K self) (self_T self) (self_r self) (self_sigma self)))"
  using assms(5)
  by (simp add: black_and_scholes_def d1_d2_valid [OF assms(1-4)] pyfloat_simps spec_call_def)

lemma black_and_scholes_put:
  assumes "0 < self_S0 self" "0 < self_K self" "0 < self_T self" "0 < self_sigma self"
    and "lower (self_type self) = ''put''"
  shows "black_and_scholes self =
     Inr (Finite (spec_put (self_S0 self) (self_K self) (self_T self) (self_r self) (self_sigma self)))"
  using assms(5)
  by (simp add: black_and_scholes_def d1_d2_valid [OF assms(1-4)] pyfloat_simps spec_put_def)

lemma d1_d2_price_update: "d1_d2 (self\<lparr>self_price := p\<rparr>) = d1_d2 self"
  by (simp add: d1_d2_def Let_def)

lemma black_and_scholes_price_update:
  "black_and_scholes (self\<lparr>self_price := p\<rparr>) = black_and_scholes self"
  by (simp add: black_and_scholes_def d1_d2_price_update split: sum.split prod.split)

lemma lower_call: "lower ''call'' = ''call''"
  by code_simp

lemma lower_put: "lower ''put'' = ''put''"
  by code_simp

lemma lower_Call: "lower ''Call'' = ''call''"
  by code_simp

lemma lower_Put: "lower ''Put'' = ''put''"
  by code_simp


section \<open>Pricing at construction\<close>

text \<open>
  Claim C1. For a spot, a strike, a maturity and a volatility above zero, and a side
  whose lower case form is \<^verbatim>\<open>call\<close> or \<^verbatim>\<open>put\<close>, \<^verbatim>\<open>__init__\<close> returns the object
  with the six attributes as given, and its price is the closed form of the
  specification: \<open>S0 N(d1) - K exp(-r T) N(d2)\<close> for a call,
  \<open>K exp(-r T) N(-d2) - S0 N(-d1)\<close> for a put.
\<close>

theorem init_price_formula:
  assumes "0 < S0" "0 < K" "0 < T" "0 < sigma"
    and "lower type = ''call'' \<or> lower type = ''put''"
  shows "init S0 K T r sigma type =
     Inr \<lparr>self_S0 = S0, self_K = K, self_T = T, self_r = r, self_sigma = sigma, self_type = type,
          self_price = Finite (if lower type = ''call'' then spec_call S0 K T r sigma
                               else spec_put S0 K T r sigma)\<rparr>"
proof -
  let ?self = "\<lparr>self_S0 = S0, self_K = K, self_T = T, self_r = r, self_sigma = sigma,
                 self_type = type\<rparr>"
  have v: "0 < self_S0 ?self" "0 < self_K ?self" "0 < self_T ?self" "0 < self_sigma ?self"
    using assms(1-4) by simp_all
  show ?thesis
  proof (cases "lower type = ''call''")
    case True
    then have "lower (self_type ?self) = ''call''" by simp
    from black_and_scholes_call [OF v this] True show ?thesis
      by (simp add: init_def attributes.defs EuropeanOption.defs)
  next
    case False
    with assms(5) have "lower (self_type ?self) = ''put''" by simp
    from black_and_scholes_put [OF v this] False show ?thesis
      by (simp add: init_def attributes.defs EuropeanOption.defs)
  qed
qed

theorem init_price_formula_witness:
  "init 100 100 1 (1 / 20) (1 / 5) ''call'' =
     Inr \<lparr>self_S0 = 100, self_K = 100, self_T = 1, self_r = 1 / 20, self_sigma = 1 / 5,
          self_type = ''call'', self_price = Finite (spec_call 100 100 1 (1 / 20) (1 / 5))\<rparr>
   \<and> init 100 100 1 (1 / 20) (1 / 5) ''Put'' =
     Inr \<lparr>self_S0 = 100, self_K = 100, self_T = 1, self_r = 1 / 20, self_sigma = 1 / 5,
          self_type = ''Put'', self_price = Finite (spec_put 100 100 1 (1 / 20) (1 / 5))\<rparr>"
  using init_price_formula [of 100 100 1 "1 / 5" "''call''" "1 / 20"]
    init_price_formula [of 100 100 1 "1 / 5" "''Put''" "1 / 20"]
  by (simp add: lower_call lower_Put)

lemma option_call_init: "init 100 100 1 (1 / 20) (1 / 5) ''call'' = Inr option_call"
  using black_and_scholes_call [of "\<lparr>self_S0 = 100, self_K = 100, self_T = 1, self_r = 1 / 20,
      self_sigma = 1 / 5, self_type = ''call''\<rparr>"]
  by (simp add: init_def lower_call attributes.defs EuropeanOption.defs option_call_def)

section \<open>The setters\<close>

text \<open>
  Claim C2. Each of the six setters, given a value for which
  \<^verbatim>\<open>black_and_scholes\<close> on the attributes after the assignment returns a price \<open>p\<close>,
  returns normally and leaves the object with the new attribute and with \<open>p\<close> as its
  price: the stored price is \<^verbatim>\<open>black_and_scholes\<close> of the object as the setter leaves
  it. The setter of \<^verbatim>\<open>type\<close> stores the lower case form of its argument.
\<close>

theorem setters_recompute_price:
  "(black_and_scholes (self\<lparr>self_S0 := v\<rparr>) = Inr p \<longrightarrow>
      set_S0 v self = (Inr (), self\<lparr>self_S0 := v, self_price := p\<rparr>)
      \<and> black_and_scholes (snd (set_S0 v self)) = Inr (self_price (snd (set_S0 v self))))
   \<and> (black_and_scholes (self\<lparr>self_K := v\<rparr>) = Inr p \<longrightarrow>
      set_K v self = (Inr (), self\<lparr>self_K := v, self_price := p\<rparr>)
      \<and> black_and_scholes (snd (set_K v self)) = Inr (self_price (snd (set_K v self))))
   \<and> (black_and_scholes (self\<lparr>self_T := v\<rparr>) = Inr p \<longrightarrow>
      set_T v self = (Inr (), self\<lparr>self_T := v, self_price := p\<rparr>)
      \<and> black_and_scholes (snd (set_T v self)) = Inr (self_price (snd (set_T v self))))
   \<and> (black_and_scholes (self\<lparr>self_r := v\<rparr>) = Inr p \<longrightarrow>
      set_r v self = (Inr (), self\<lparr>self_r := v, self_price := p\<rparr>)
      \<and> black_and_scholes (snd (set_r v self)) = Inr (self_price (snd (set_r v self))))
   \<and> (black_and_scholes (self\<lparr>self_sigma := v\<rparr>) = Inr p \<longrightarrow>
      set_sigma v self = (Inr (), self\<lparr>self_sigma := v, self_price := p\<rparr>)
      \<and> black_and_scholes (snd (set_sigma v self)) = Inr (self_price (snd (set_sigma v self))))
   \<and> (lower w \<in> set [''call'', ''put''] \<and> black_and_scholes (self\<lparr>self_type := lower w\<rparr>) = Inr p \<longrightarrow>
      set_type w self = (Inr (), self\<lparr>self_type := lower w, self_price := p\<rparr>)
      \<and> black_and_scholes (snd (set_type w self)) = Inr (self_price (snd (set_type w self))))"
  by (simp add: set_S0_def set_K_def set_T_def set_r_def set_sigma_def set_type_def
      reprice_def black_and_scholes_price_update)

theorem setters_recompute_price_witness:
  "set_S0 110 option_call =
     (Inr (), option_call\<lparr>self_S0 := 110, self_price := Finite (spec_call 110 100 1 (1 / 20) (1 / 5))\<rparr>)
   \<and> set_K 105 option_call =
     (Inr (), option_call\<lparr>self_K := 105, self_price := Finite (spec_call 100 105 1 (1 / 20) (1 / 5))\<rparr>)
   \<and> set_T (1 / 2) option_call =
     (Inr (), option_call\<lparr>self_T := 1 / 2, self_price := Finite (spec_call 100 100 (1 / 2) (1 / 20) (1 / 5))\<rparr>)
   \<and> set_r (3 / 100) option_call =
     (Inr (), option_call\<lparr>self_r := 3 / 100, self_price := Finite (spec_call 100 100 1 (3 / 100) (1 / 5))\<rparr>)
   \<and> set_sigma (3 / 10) option_call =
     (Inr (), option_call\<lparr>self_sigma := 3 / 10, self_price := Finite (spec_call 100 100 1 (1 / 20) (3 / 10))\<rparr>)
   \<and> set_type ''Put'' option_call =
     (Inr (), option_call\<lparr>self_type := ''put'', self_price := Finite (spec_put 100 100 1 (1 / 20) (1 / 5))\<rparr>)"
proof -
  have 1: "black_and_scholes (option_call\<lparr>self_S0 := 110\<rparr>)
             = Inr (Finite (spec_call 110 100 1 (1 / 20) (1 / 5)))"
    using black_and_scholes_call [of "option_call\<lparr>self_S0 := 110\<rparr>"]
    by (simp add: option_call_def lower_call)
  have 2: "black_and_scholes (option_call\<lparr>self_K := 105\<rparr>)
             = Inr (Finite (spec_call 100 105 1 (1 / 20) (1 / 5)))"
    using black_and_scholes_call [of "option_call\<lparr>self_K := 105\<rparr>"]
    by (simp add: option_call_def lower_call)
  have 3: "black_and_scholes (option_call\<lparr>self_T := 1 / 2\<rparr>)
             = Inr (Finite (spec_call 100 100 (1 / 2) (1 / 20) (1 / 5)))"
    using black_and_scholes_call [of "option_call\<lparr>self_T := 1 / 2\<rparr>"]
    by (simp add: option_call_def lower_call)
  have 4: "black_and_scholes (option_call\<lparr>self_r := 3 / 100\<rparr>)
             = Inr (Finite (spec_call 100 100 1 (3 / 100) (1 / 5)))"
    using black_and_scholes_call [of "option_call\<lparr>self_r := 3 / 100\<rparr>"]
    by (simp add: option_call_def lower_call)
  have 5: "black_and_scholes (option_call\<lparr>self_sigma := 3 / 10\<rparr>)
             = Inr (Finite (spec_call 100 100 1 (1 / 20) (3 / 10)))"
    using black_and_scholes_call [of "option_call\<lparr>self_sigma := 3 / 10\<rparr>"]
    by (simp add: option_call_def lower_call)
  have 6: "black_and_scholes (option_call\<lparr>self_type := lower ''Put''\<rparr>)
             = Inr (Finite (spec_put 100 100 1 (1 / 20) (1 / 5)))"
    using black_and_scholes_put [of "option_call\<lparr>self_type := lower ''Put''\<rparr>"]
    by (simp add: option_call_def lower_put lower_Put)
  have 7: "lower ''Put'' \<in> set [''call'', ''put'']"
    by (simp add: lower_Put)
  show ?thesis
    using setters_recompute_price [where self = option_call and v = 110 and p = "Finite (spec_call 110 100 1 (1 / 20) (1 / 5))"] 1
      setters_recompute_price [where self = option_call and v = 105 and p = "Finite (spec_call 100 105 1 (1 / 20) (1 / 5))"] 2
      setters_recompute_price [where self = option_call and v = "1 / 2" and p = "Finite (spec_call 100 100 (1 / 2) (1 / 20) (1 / 5))"] 3
      setters_recompute_price [where self = option_call and v = "3 / 100" and p = "Finite (spec_call 100 100 1 (3 / 100) (1 / 5))"] 4
      setters_recompute_price [where self = option_call and v = "3 / 10" and p = "Finite (spec_call 100 100 1 (1 / 20) (3 / 10))"] 5
      setters_recompute_price [where self = option_call and p = "Finite (spec_put 100 100 1 (1 / 20) (1 / 5))" and w = "''Put''"] 6 7
    by (simp only: lower_Put simp_thms)
qed

section \<open>Gamma and vega\<close>

text \<open>
  Claim C3. For a spot, a strike, a maturity and a volatility above zero, \<^verbatim>\<open>gamma\<close>
  returns \<open>n(d1) / (S0 sigma\<^sup>2 sqrt T)\<close> and \<^verbatim>\<open>vega\<close> returns
  \<open>S0 sigma sqrt T n(d1)\<close>, with \<open>n\<close> the standard normal density, whatever the side
  of the contract is.
\<close>

theorem gamma_vega_formulas:
  assumes "0 < self_S0 self" "0 < self_K self" "0 < self_T self" "0 < self_sigma self"
  shows "gamma (self\<lparr>self_type := side\<rparr>) =
           Inr (Finite (std_normal_pdf (spec_d1 (self_S0 self) (self_K self) (self_T self) (self_r self) (self_sigma self))
                        / (self_S0 self * (self_sigma self)\<^sup>2 * sqrt (self_T self))))
       \<and> vega (self\<lparr>self_type := side\<rparr>) =
           Inr (Finite (self_S0 self * self_sigma self * sqrt (self_T self)
                        * std_normal_pdf (spec_d1 (self_S0 self) (self_K self) (self_T self) (self_r self) (self_sigma self))))"
proof -
  let ?s = "self\<lparr>self_type := side\<rparr>"
  have v: "0 < self_S0 ?s" "0 < self_K ?s" "0 < self_T ?s" "0 < self_sigma ?s"
    using assms by simp_all
  have nz: "self_S0 self * self_sigma self * self_sigma self * sqrt (self_T self) \<noteq> 0"
    "0 \<le> self_T self"
    using assms by simp_all
  have g: "gamma ?s = Inr (Finite (std_normal_pdf (spec_d1 (self_S0 self) (self_K self) (self_T self) (self_r self) (self_sigma self))
                        / (self_S0 self * (self_sigma self)\<^sup>2 * sqrt (self_T self))))"
    using nz by (simp add: gamma_def d1_d2_valid [OF v] pyfloat_simps power2_eq_square mult.assoc)
  have w: "vega ?s = Inr (Finite (self_S0 self * self_sigma self * sqrt (self_T self)
                        * std_normal_pdf (spec_d1 (self_S0 self) (self_K self) (self_T self) (self_r self) (self_sigma self))))"
    using nz by (simp add: vega_def d1_d2_valid [OF v] pyfloat_simps)
  from g w show ?thesis by (rule conjI)
qed

theorem gamma_vega_formulas_witness:
  "gamma (option_call\<lparr>self_type := ''put''\<rparr>) =
     Inr (Finite (std_normal_pdf (spec_d1 100 100 1 (1 / 20) (1 / 5)) / (100 * (1 / 5)\<^sup>2 * sqrt 1)))
   \<and> vega (option_call\<lparr>self_type := ''put''\<rparr>) =
     Inr (Finite (100 * (1 / 5) * sqrt 1 * std_normal_pdf (spec_d1 100 100 1 (1 / 20) (1 / 5))))"
  using gamma_vega_formulas [of option_call "''put''"]
  by (simp add: option_call_def)

section \<open>An invalid side\<close>



lemma black_and_scholes_zero_strike:
  "self_K self = 0 \<Longrightarrow> black_and_scholes self = Inl ZeroDivisionError"
  by (simp add: black_and_scholes_def d1_d2_def)




section \<open>The Greeks\<close>

text \<open>
  On a contract of valid parameters whose side is stored in lower case, the five Greeks
  return numbers.
\<close>

lemma greeks_lower_case_side:
  assumes "0 < self_S0 self" "0 < self_K self" "0 < self_T self" "0 < self_sigma self"
    and "self_type self = ''call'' \<or> self_type self = ''put''"
  shows "\<exists>a b c d e. delta self = Inr (Some (Finite a)) \<and> gamma self = Inr (Finite b)
           \<and> vega self = Inr (Finite c) \<and> theta self = Inr (Some (Finite d))
           \<and> rho self = Inr (Some (Finite e))"
proof -
  have nz: "self_S0 self * self_sigma self * self_sigma self * sqrt (self_T self) \<noteq> 0"
    "2 * sqrt (self_T self) \<noteq> 0" "0 \<le> self_T self"
    using assms(1-4) by simp_all
  show ?thesis
    using assms(5) nz
    by (auto simp add: delta_def gamma_def vega_def theta_def rho_def d1_d2_valid [OF assms(1-4)]
        pyfloat_simps)
qed

text \<open>
  Claim C5. \<^verbatim>\<open>__init__\<close> accepts the side \<^verbatim>\<open>'Call'\<close> (\<^verbatim>\<open>black_and_scholes\<close> compares
  its lower case form) and stores it as it is; \<^verbatim>\<open>delta\<close>, \<^verbatim>\<open>theta\<close> and \<^verbatim>\<open>rho\<close>
  compare the stored side with \<^verbatim>\<open>'call'\<close> and \<^verbatim>\<open>'put'\<close> exactly, so on this contract
  each of them ends without a \<^verbatim>\<open>return\<close>: its value is \<^verbatim>\<open>None\<close>, not a number.
\<close>

theorem greeks_of_capitalised_side:
  "\<exists>self. init 100 100 1 (1 / 20) (1 / 5) ''Call'' = Inr self
      \<and> delta self = Inr None \<and> theta self = Inr None \<and> rho self = Inr None"
proof -
  let ?c = "\<lparr>self_S0 = 100, self_K = 100, self_T = 1, self_r = 1 / 20, self_sigma = 1 / 5,
     self_type = ''Call'', self_price = Finite (spec_call 100 100 1 (1 / 20) (1 / 5))\<rparr>"
  have v: "0 < self_S0 ?c" "0 < self_K ?c" "0 < self_T ?c" "0 < self_sigma ?c"
    by simp_all
  have "init 100 100 1 (1 / 20) (1 / 5) ''Call'' = Inr ?c"
    using black_and_scholes_call [of "\<lparr>self_S0 = 100, self_K = 100, self_T = 1, self_r = 1 / 20,
      self_sigma = 1 / 5, self_type = ''Call''\<rparr>"]
    by (simp add: init_def lower_Call attributes.defs EuropeanOption.defs)
  moreover have "delta ?c = Inr None" "theta ?c = Inr None" "rho ?c = Inr None"
    by (simp_all add: delta_def theta_def rho_def d1_d2_valid [OF v])
  ultimately show ?thesis by blast
qed

section \<open>Put-call parity and monotonicity in the volatility\<close>

lemma spec_parity:
  "spec_call S0 K T r sigma - spec_put S0 K T r sigma = S0 - K * exp (- r * T)"
  by (simp add: spec_call_def spec_put_def std_normal_cdf_minus algebra_simps)

lemma spec_d1_times:
  assumes "0 < T" "0 < sigma"
  shows "spec_d1 S0 K T r sigma * (sigma * sqrt T) = ln (S0 / K) + (r + sigma\<^sup>2 / 2) * T"
proof -
  have "sigma * sqrt T \<noteq> 0"
    using assms by simp
  then show ?thesis
    by (simp add: spec_d1_def)
qed

lemma spec_d2_square:
  assumes "0 < T" "0 < sigma"
  shows "- (spec_d2 S0 K T r sigma)\<^sup>2 / 2 = - (spec_d1 S0 K T r sigma)\<^sup>2 / 2 + (ln (S0 / K) + r * T)"
proof -
  let ?d = "spec_d1 S0 K T r sigma"
  let ?x = "sigma * sqrt T"
  have x2: "?x\<^sup>2 = sigma\<^sup>2 * T"
    using assms(1) by (simp add: power_mult_distrib)
  have "(?d - ?x)\<^sup>2 = ?d\<^sup>2 - 2 * (?d * ?x) + ?x\<^sup>2"
    by (simp add: power2_diff)
  also have "\<dots> = ?d\<^sup>2 - 2 * (ln (S0 / K) + (r + sigma\<^sup>2 / 2) * T) + sigma\<^sup>2 * T"
    by (simp only: spec_d1_times [OF assms] x2)
  also have "\<dots> = ?d\<^sup>2 - 2 * (ln (S0 / K) + r * T)"
    by (simp add: algebra_simps)
  finally show ?thesis
    by (simp add: spec_d2_def)
qed

lemma pdf_d2:
  assumes "0 < S0" "0 < K" "0 < T" "0 < sigma"
  shows "K * exp (- r * T) * std_normal_pdf (spec_d2 S0 K T r sigma)
         = S0 * std_normal_pdf (spec_d1 S0 K T r sigma)"
proof -
  let ?d = "spec_d1 S0 K T r sigma"
  have p: "0 < S0 / K"
    using assms(1,2) by (rule divide_pos_pos)
  have "exp (- (spec_d2 S0 K T r sigma)\<^sup>2 / 2) = exp (- ?d\<^sup>2 / 2) * (exp (ln (S0 / K)) * exp (r * T))"
    by (simp only: spec_d2_square [OF assms(3,4)] exp_add)
  also have "exp (ln (S0 / K)) = S0 / K"
    using p by (rule exp_ln)
  finally have e: "exp (- (spec_d2 S0 K T r sigma)\<^sup>2 / 2) = exp (- ?d\<^sup>2 / 2) * (S0 / K * exp (r * T))" .
  have o: "exp (- r * T) * exp (r * T) = 1"
    by (simp add: exp_minus)
  have k: "K * (S0 / K) = S0"
    using assms(2) by simp
  have "K * exp (- r * T) * (exp (- ?d\<^sup>2 / 2) * (S0 / K * exp (r * T)))
      = (K * (S0 / K)) * (exp (- r * T) * exp (r * T)) * exp (- ?d\<^sup>2 / 2)"
    by (simp only: mult_ac)
  also have "\<dots> = S0 * exp (- ?d\<^sup>2 / 2)"
    by (simp only: o k mult_1_right)
  finally have c: "K * exp (- r * T) * (exp (- ?d\<^sup>2 / 2) * (S0 / K * exp (r * T)))
      = S0 * exp (- ?d\<^sup>2 / 2)" .
  show ?thesis
    unfolding std_normal_pdf_def e by (simp only: times_divide_eq_right c)
qed

lemma DERIV_spec_d1:
  assumes "0 < T" "0 < sigma"
  shows "\<exists>D. DERIV (\<lambda>s. spec_d1 S0 K T r s) sigma :> D"
proof -
  have "sigma * sqrt T \<noteq> 0"
    using assms by simp
  then show ?thesis
    unfolding spec_d1_def by (intro exI) (auto intro!: derivative_eq_intros)
qed

lemma DERIV_spec_call:
  assumes "0 < S0" "0 < K" "0 < T" "0 < sigma"
  shows "DERIV (\<lambda>s. spec_call S0 K T r s) sigma
           :> S0 * std_normal_pdf (spec_d1 S0 K T r sigma) * sqrt T"
proof -
  obtain D where D: "DERIV (\<lambda>s. spec_d1 S0 K T r s) sigma :> D"
    using DERIV_spec_d1 [OF assms(3,4)] by blast
  have "DERIV (\<lambda>s. spec_d1 S0 K T r s - s * sqrt T) sigma :> D - 1 * sqrt T"
    by (intro DERIV_diff D DERIV_cmult_right DERIV_ident)
  then have D2: "DERIV (\<lambda>s. spec_d2 S0 K T r s) sigma :> D - sqrt T"
    by (simp add: spec_d2_def [abs_def])
  have N1: "DERIV (\<lambda>s. std_normal_cdf (spec_d1 S0 K T r s)) sigma
              :> std_normal_pdf (spec_d1 S0 K T r sigma) * D"
    by (rule DERIV_chain2 [OF DERIV_std_normal_cdf D])
  have N2: "DERIV (\<lambda>s. std_normal_cdf (spec_d2 S0 K T r s)) sigma
              :> std_normal_pdf (spec_d2 S0 K T r sigma) * (D - sqrt T)"
    by (rule DERIV_chain2 [OF DERIV_std_normal_cdf D2])
  have "DERIV (\<lambda>s. S0 * std_normal_cdf (spec_d1 S0 K T r s)
                    - K * exp (- r * T) * std_normal_cdf (spec_d2 S0 K T r s)) sigma
          :> S0 * (std_normal_pdf (spec_d1 S0 K T r sigma) * D)
             - K * exp (- r * T) * (std_normal_pdf (spec_d2 S0 K T r sigma) * (D - sqrt T))"
    by (intro DERIV_diff DERIV_cmult N1 N2)
  moreover have "S0 * (std_normal_pdf (spec_d1 S0 K T r sigma) * D)
             - K * exp (- r * T) * (std_normal_pdf (spec_d2 S0 K T r sigma) * (D - sqrt T))
        = S0 * std_normal_pdf (spec_d1 S0 K T r sigma) * sqrt T"
  proof -
    have "K * exp (- r * T) * (std_normal_pdf (spec_d2 S0 K T r sigma) * (D - sqrt T))
        = (K * exp (- r * T) * std_normal_pdf (spec_d2 S0 K T r sigma)) * (D - sqrt T)"
      by (simp only: mult.assoc)
    also have "\<dots> = S0 * std_normal_pdf (spec_d1 S0 K T r sigma) * (D - sqrt T)"
      by (simp only: pdf_d2 [OF assms])
    finally show ?thesis
      by (simp add: algebra_simps)
  qed
  ultimately show ?thesis
    by (simp add: spec_call_def [abs_def])
qed

lemma std_normal_pdf_nonneg: "0 \<le> std_normal_pdf x"
  by (simp add: std_normal_pdf_def)

lemma spec_call_mono:
  assumes "0 < S0" "0 < K" "0 < T" "0 < s1" "s1 \<le> s2"
  shows "spec_call S0 K T r s1 \<le> spec_call S0 K T r s2"
proof (rule DERIV_nonneg_imp_nondecreasing [OF assms(5)])
  fix s
  assume "s1 \<le> s" "s \<le> s2"
  then have s: "0 < s"
    using assms(4) by simp
  have "0 \<le> S0 * std_normal_pdf (spec_d1 S0 K T r s) * sqrt T"
    using assms(1,3) by (simp add: std_normal_pdf_nonneg)
  then show "\<exists>y. DERIV (\<lambda>s. spec_call S0 K T r s) s :> y \<and> 0 \<le> y"
    using DERIV_spec_call [OF assms(1-3) s] by blast
qed

lemma spec_put_mono:
  assumes "0 < S0" "0 < K" "0 < T" "0 < s1" "s1 \<le> s2"
  shows "spec_put S0 K T r s1 \<le> spec_put S0 K T r s2"
  using spec_call_mono [OF assms, of r] spec_parity [of S0 K T r s1] spec_parity [of S0 K T r s2]
  by linarith

text \<open>
  Claim C6. For a spot, a strike, a maturity and a volatility above zero and any rate,
  \<^verbatim>\<open>black_and_scholes\<close> returns a price for the call and a price for the put of the
  same parameters, and the first minus the second is \<open>S0 - K exp(-r T)\<close>. On real
  numbers the two sides are equal.
\<close>

theorem put_call_parity:
  assumes "0 < self_S0 self" "0 < self_K self" "0 < self_T self" "0 < self_sigma self"
    and "lower tc = ''call''" "lower tp = ''put''"
  shows "\<exists>c p. black_and_scholes (self\<lparr>self_type := tc\<rparr>) = Inr (Finite c)
           \<and> black_and_scholes (self\<lparr>self_type := tp\<rparr>) = Inr (Finite p)
           \<and> c - p = self_S0 self - self_K self * exp (- self_r self * self_T self)"
proof -
  let ?c = "spec_call (self_S0 self) (self_K self) (self_T self) (self_r self) (self_sigma self)"
  let ?p = "spec_put (self_S0 self) (self_K self) (self_T self) (self_r self) (self_sigma self)"
  have "black_and_scholes (self\<lparr>self_type := tc\<rparr>) = Inr (Finite ?c)"
    using black_and_scholes_call [of "self\<lparr>self_type := tc\<rparr>"] assms by simp
  moreover have "black_and_scholes (self\<lparr>self_type := tp\<rparr>) = Inr (Finite ?p)"
    using black_and_scholes_put [of "self\<lparr>self_type := tp\<rparr>"] assms by simp
  moreover have "?c - ?p = self_S0 self - self_K self * exp (- self_r self * self_T self)"
    by (rule spec_parity)
  ultimately show ?thesis by blast
qed

theorem put_call_parity_witness:
  "\<exists>c p. black_and_scholes (option_call\<lparr>self_type := ''call''\<rparr>) = Inr (Finite c)
      \<and> black_and_scholes (option_call\<lparr>self_type := ''put''\<rparr>) = Inr (Finite p)
      \<and> c - p = 100 - 100 * exp (- (1 / 20) * 1)"
  using put_call_parity [of option_call "''call''" "''put''"]
  by (simp add: option_call_def lower_call lower_put)

text \<open>
  Monotonicity in the volatility, on real numbers. For a spot, a strike and a maturity
  above zero, any rate and either side, the price of \<^verbatim>\<open>black_and_scholes\<close> does not
  decrease when the volatility grows from \<open>s1 > 0\<close> to \<open>s2 \<ge> s1\<close>, and \<^verbatim>\<open>vega\<close>
  returns a number that is not negative. This is a fact about the formula: the floats
  of the program round, and the order of two rounded prices is not modelled (Claim C7
  is about them).
\<close>

lemma price_monotone_in_sigma:
  assumes "0 < self_S0 self" "0 < self_K self" "0 < self_T self"
    and "0 < s1" "s1 \<le> s2"
    and "lower (self_type self) = ''call'' \<or> lower (self_type self) = ''put''"
  shows "\<exists>p1 p2 v. black_and_scholes (self\<lparr>self_sigma := s1\<rparr>) = Inr (Finite p1)
           \<and> black_and_scholes (self\<lparr>self_sigma := s2\<rparr>) = Inr (Finite p2)
           \<and> p1 \<le> p2
           \<and> vega (self\<lparr>self_sigma := s1\<rparr>) = Inr (Finite v) \<and> 0 \<le> v"
proof -
  let ?S0 = "self_S0 self" and ?K = "self_K self" and ?T = "self_T self" and ?r = "self_r self"
  have s2: "0 < s2"
    using assms(4,5) by simp
  have v1: "0 < self_S0 (self\<lparr>self_sigma := s1\<rparr>)" "0 < self_K (self\<lparr>self_sigma := s1\<rparr>)"
    "0 < self_T (self\<lparr>self_sigma := s1\<rparr>)" "0 < self_sigma (self\<lparr>self_sigma := s1\<rparr>)"
    using assms(1-4) by simp_all
  have v2: "0 < self_S0 (self\<lparr>self_sigma := s2\<rparr>)" "0 < self_K (self\<lparr>self_sigma := s2\<rparr>)"
    "0 < self_T (self\<lparr>self_sigma := s2\<rparr>)" "0 < self_sigma (self\<lparr>self_sigma := s2\<rparr>)"
    using assms(1-3) s2 by simp_all
  have g: "vega (self\<lparr>self_sigma := s1\<rparr>)
             = Inr (Finite (?S0 * s1 * sqrt ?T * std_normal_pdf (spec_d1 ?S0 ?K ?T ?r s1)))"
    using assms(3) by (simp add: vega_def d1_d2_valid [OF v1] pyfloat_simps)
  have n: "0 \<le> ?S0 * s1 * sqrt ?T * std_normal_pdf (spec_d1 ?S0 ?K ?T ?r s1)"
    using assms(1,3,4) by (simp add: std_normal_pdf_nonneg)
  show ?thesis
  proof (cases "lower (self_type self) = ''call''")
    case True
    have "black_and_scholes (self\<lparr>self_sigma := s1\<rparr>) = Inr (Finite (spec_call ?S0 ?K ?T ?r s1))"
      using black_and_scholes_call [OF v1] True by simp
    moreover have "black_and_scholes (self\<lparr>self_sigma := s2\<rparr>) = Inr (Finite (spec_call ?S0 ?K ?T ?r s2))"
      using black_and_scholes_call [OF v2] True by simp
    moreover have "spec_call ?S0 ?K ?T ?r s1 \<le> spec_call ?S0 ?K ?T ?r s2"
      by (rule spec_call_mono [OF assms(1-5)])
    ultimately show ?thesis
      using g n by blast
  next
    case False
    with assms(6) have put: "lower (self_type self) = ''put''"
      by simp
    have "black_and_scholes (self\<lparr>self_sigma := s1\<rparr>) = Inr (Finite (spec_put ?S0 ?K ?T ?r s1))"
      using black_and_scholes_put [OF v1] put by simp
    moreover have "black_and_scholes (self\<lparr>self_sigma := s2\<rparr>) = Inr (Finite (spec_put ?S0 ?K ?T ?r s2))"
      using black_and_scholes_put [OF v2] put by simp
    moreover have "spec_put ?S0 ?K ?T ?r s1 \<le> spec_put ?S0 ?K ?T ?r s2"
      by (rule spec_put_mono [OF assms(1-5)])
    ultimately show ?thesis
      using g n by blast
  qed
qed

lemma price_monotone_in_sigma_example:
  "\<exists>p1 p2 v. black_and_scholes (option_call\<lparr>self_sigma := 1 / 5\<rparr>) = Inr (Finite p1)
      \<and> black_and_scholes (option_call\<lparr>self_sigma := 3 / 10\<rparr>) = Inr (Finite p2)
      \<and> p1 \<le> p2
      \<and> vega (option_call\<lparr>self_sigma := 1 / 5\<rparr>) = Inr (Finite v) \<and> 0 \<le> v"
  using price_monotone_in_sigma [of option_call "1 / 5" "3 / 10"]
  by (simp add: option_call_def lower_call)

section \<open>The implied volatility\<close>

text \<open>
  The price is strictly increasing in the volatility on real numbers, so two volatilities
  above zero with the same price are equal.
\<close>

lemma std_normal_pdf_pos: "0 < std_normal_pdf x"
  by (simp add: std_normal_pdf_def)

lemma spec_call_strict_mono:
  assumes "0 < S0" "0 < K" "0 < T" "0 < s1" "s1 < s2"
  shows "spec_call S0 K T r s1 < spec_call S0 K T r s2"
proof (rule DERIV_pos_imp_increasing [OF assms(5)])
  fix s
  assume "s1 \<le> s" "s \<le> s2"
  then have s: "0 < s"
    using assms(4) by simp
  have "0 < S0 * std_normal_pdf (spec_d1 S0 K T r s) * sqrt T"
    using assms(1,3) by (simp add: std_normal_pdf_pos)
  then show "\<exists>y. DERIV (\<lambda>s. spec_call S0 K T r s) s :> y \<and> 0 < y"
    using DERIV_spec_call [OF assms(1-3) s] by blast
qed

lemma spec_put_strict_mono:
  assumes "0 < S0" "0 < K" "0 < T" "0 < s1" "s1 < s2"
  shows "spec_put S0 K T r s1 < spec_put S0 K T r s2"
  using spec_call_strict_mono [OF assms, of r] spec_parity [of S0 K T r s1] spec_parity [of S0 K T r s2]
  by linarith
























section \<open>The stored side\<close>

text \<open>
  Claim C10. When the setter of \<^verbatim>\<open>type\<close> returns normally, the side it has stored is
  the lower case form of its argument, and is \<^verbatim>\<open>call\<close> or \<^verbatim>\<open>put\<close>; when
  \<^verbatim>\<open>__init__\<close> returns an object, the side it has stored is its argument as it was
  given.
\<close>

theorem type_setter_normalises_init_does_not:
  "(set_type v self = (Inr (), self') \<longrightarrow>
      self_type self' = lower v \<and> (self_type self' = ''call'' \<or> self_type self' = ''put''))
   \<and> (init S0 K T r sigma type = Inr c \<longrightarrow> self_type c = type)"
proof -
  have "self_type self' = lower v \<and> (self_type self' = ''call'' \<or> self_type self' = ''put'')"
    if "set_type v self = (Inr (), self')"
    using that
    by (auto simp add: set_type_def reprice_def split: if_splits sum.splits)
  moreover have "self_type c = type" if "init S0 K T r sigma type = Inr c"
    using that
    by (auto simp add: init_def Let_def attributes.defs EuropeanOption.defs split: sum.splits)
  ultimately show ?thesis by blast
qed

theorem type_setter_normalises_init_does_not_witness:
  "set_type ''Put'' option_call =
     (Inr (), option_call\<lparr>self_type := ''put'', self_price := Finite (spec_put 100 100 1 (1 / 20) (1 / 5))\<rparr>)
   \<and> self_type (option_call\<lparr>self_type := ''put'', self_price := Finite (spec_put 100 100 1 (1 / 20) (1 / 5))\<rparr>) = ''put''
   \<and> init 100 100 1 (1 / 20) (1 / 5) ''Call'' =
       Inr (option_call\<lparr>self_type := ''Call''\<rparr>)
   \<and> self_type (option_call\<lparr>self_type := ''Call''\<rparr>) = ''Call''"
proof -
  have 1: "set_type ''Put'' option_call =
     (Inr (), option_call\<lparr>self_type := ''put'', self_price := Finite (spec_put 100 100 1 (1 / 20) (1 / 5))\<rparr>)"
    using black_and_scholes_put [of "option_call\<lparr>self_type := ''put''\<rparr>"]
    by (simp add: set_type_def reprice_def lower_Put lower_put option_call_def)
  have 2: "init 100 100 1 (1 / 20) (1 / 5) ''Call'' = Inr (option_call\<lparr>self_type := ''Call''\<rparr>)"
    using black_and_scholes_call [of "\<lparr>self_S0 = 100, self_K = 100, self_T = 1, self_r = 1 / 20,
      self_sigma = 1 / 5, self_type = ''Call''\<rparr>"]
    by (simp add: init_def lower_Call attributes.defs EuropeanOption.defs option_call_def)
  from type_setter_normalises_init_does_not [where v = "''Put''" and self = option_call
      and self' = "option_call\<lparr>self_type := ''put'', self_price := Finite (spec_put 100 100 1 (1 / 20) (1 / 5))\<rparr>"
      and ?S0.0 = 100 and K = 100 and T = 1 and r = "1 / 20" and sigma = "1 / 5" and type = "''Call''"
      and c = "option_call\<lparr>self_type := ''Call''\<rparr>"] 1 2
  show ?thesis by simp
qed

end
